theory Spec2Isabelle
  imports Complex_Main
begin

section \<open>JavaScript numbers and their text\<close>

text \<open>
  The runner \<^verbatim>\<open>run_gesture_webcam.js\<close> reads the model's scores from a
  \<^verbatim>\<open>Float32Array\<close> and prints them. A Number is modelled by its exact value:
  a finite one is the rational it denotes, and the three special values stand beside it.
  Negative zero is identified with zero; every operation the runner applies
  (\<^verbatim>\<open>Math.max\<close>, \<^verbatim>\<open>indexOf\<close>, \<^verbatim>\<open>*\<close>, \<^verbatim>\<open>toFixed\<close>,
  \<^verbatim>\<open>join\<close>) treats the two alike, except that \<^verbatim>\<open>toFixed\<close> keeps the sign
  of a negative number that rounds to zero, which the model does as well.
\<close>

datatype jsnum = Fin rat | PInf | NInf | NaN

definition pow2 :: "int \<Rightarrow> rat" where
  "pow2 e = (if 0 \<le> e then of_int (2 ^ nat e) else 1 / of_int (2 ^ nat (- e)))"

definition pow10 :: "int \<Rightarrow> rat" where
  "pow10 e = (if 0 \<le> e then of_int (10 ^ nat e) else 1 / of_int (10 ^ nat (- e)))"

text \<open>\<open>floor_log b a\<close> is the integer logarithm of an integer \<open>a \<ge> 1\<close>; \<open>ilog\<close>
  extends it to positive rationals: \<open>b ^ ilog b a \<le> a < b ^ (ilog b a + 1)\<close>.\<close>

function floor_log :: "int \<Rightarrow> int \<Rightarrow> int" where
  "floor_log b a = (if b \<le> 1 \<or> a < b then 0 else 1 + floor_log b (a div b))"
  by pat_completeness auto
termination
  by (relation "measure (\<lambda>(b, a). nat a)") (auto intro: int_div_less_self)

definition ilog :: "int \<Rightarrow> rat \<Rightarrow> int" where
  "ilog b a =
     (if 1 \<le> a then floor_log b \<lfloor>a\<rfloor>
      else (let f = floor_log b \<lfloor>1 / a\<rfloor>
            in if of_int (b ^ nat f) = 1 / a then - f else - f - 1))"

definition round_half_even :: "rat \<Rightarrow> int" where
  "round_half_even x =
     (let f = \<lfloor>x\<rfloor>; d = x - of_int f
      in if d < 1 / 2 then f else if 1 / 2 < d then f + 1 else if f mod 2 = 0 then f else f + 1)"

text \<open>
  Rounding of a real to the binary floating-point format with \<open>p\<close> significant bits
  and exponents \<open>emin .. emax\<close>, to nearest, ties to even; subnormal numbers below
  \<open>2 ^ emin\<close>, an infinity from \<open>2 ^ (emax + 1)\<close> on. \<open>to_double\<close> is the Number
  value of a real, \<open>to_float32\<close> what a \<^verbatim>\<open>Float32Array\<close> element holds.
\<close>

definition round_float :: "nat \<Rightarrow> int \<Rightarrow> int \<Rightarrow> rat \<Rightarrow> jsnum" where
  "round_float p emin emax q =
     (if q = 0 then Fin 0
      else (let a = \<bar>q\<bar>;
                e = max (ilog 2 a) emin - int p + 1;
                m = round_half_even (a / pow2 e);
                r = of_int m * pow2 e
            in if emax < floor_log 2 m + e then (if q < 0 then NInf else PInf)
               else Fin (if q < 0 then - r else r)))"

definition to_double :: "rat \<Rightarrow> jsnum" where
  "to_double = round_float 53 (- 1022) 1023"

definition to_float32 :: "rat \<Rightarrow> jsnum" where
  "to_float32 = round_float 24 (- 126) 127"

text \<open>Decimal digits of a non-negative integer, and of an integer with its sign (the
  text of an integral Number below \<open>2 ^ 53\<close>, such as an array index).\<close>

definition digit_char :: "nat \<Rightarrow> char" where
  "digit_char d = ''0123456789'' ! d"

function digits :: "int \<Rightarrow> string" where
  "digits n = (if n < 10 then [digit_char (nat n)] else digits (n div 10) @ [digit_char (nat (n mod 10))])"
  by pat_completeness auto
termination
  by (relation "measure nat") auto

definition show_int :: "int \<Rightarrow> string" where
  "show_int i = (if i < 0 then ''-'' @ digits (- i) else digits i)"

text \<open>
  \<^verbatim>\<open>Number::toString\<close> (ECMAScript 6.1.6.1.20): the digits \<open>s\<close> and the exponent
  \<open>n\<close> with the fewest digits \<open>k\<close> such that \<open>s * 10 ^ (n - k)\<close> reads back as the
  same Number; of two candidates the nearer one. \<open>try_digits\<close> tests the two
  \<open>k\<close>-digit decimals next to \<open>q\<close>; seventeen digits always suffice.
\<close>

definition try_digits :: "rat \<Rightarrow> int \<Rightarrow> int \<Rightarrow> bool \<Rightarrow> (int \<times> int) option" where
  "try_digits q n0 k force =
     (let u = pow10 (n0 - k);
          lo = \<lfloor>q / u\<rfloor>;
          hi = lo + 1;
          ok_lo = (force \<or> to_double (of_int lo * u) = Fin q);
          ok_hi = (force \<or> to_double (of_int hi * u) = Fin q);
          d_lo = q - of_int lo * u;
          d_hi = of_int hi * u - q
      in if ok_lo \<and> (\<not> ok_hi \<or> d_lo < d_hi \<or> (d_lo = d_hi \<and> lo mod 2 = 0)) then Some (lo, n0)
         else if ok_hi then Some (if hi = 10 ^ nat k then (10 ^ nat (k - 1), n0 + 1) else (hi, n0))
         else None)"

function shortest :: "rat \<Rightarrow> int \<Rightarrow> int \<Rightarrow> int \<times> int" where
  "shortest q n0 k =
     (case try_digits q n0 k (17 \<le> k) of
        Some r \<Rightarrow> r
      | None \<Rightarrow> if 17 \<le> k then (0, 0) else shortest q n0 (k + 1))"
  by pat_completeness auto
termination
  by (relation "measure (\<lambda>(q, n0, k). nat (17 - k))") auto

definition positive_to_string :: "rat \<Rightarrow> string" where
  "positive_to_string q =
     (let (s, n) = shortest q (ilog 10 q + 1) 1;
          ds = digits s;
          k = int (length ds)
      in if k \<le> n \<and> n \<le> 21 then ds @ replicate (nat (n - k)) CHR ''0''
         else if 0 < n \<and> n \<le> 21 then take (nat n) ds @ ''.'' @ drop (nat n) ds
         else if - 6 < n \<and> n \<le> 0 then ''0.'' @ replicate (nat (- n)) CHR ''0'' @ ds
         else (let e = n - 1;
                   es = (if e < 0 then ''-'' else ''+'') @ digits \<bar>e\<bar>
               in if k = 1 then ds @ ''e'' @ es
                  else take 1 ds @ ''.'' @ drop 1 ds @ ''e'' @ es))"

definition number_to_string :: "jsnum \<Rightarrow> string" where
  "number_to_string x =
     (case x of
        NaN \<Rightarrow> ''NaN''
      | PInf \<Rightarrow> ''Infinity''
      | NInf \<Rightarrow> ''-Infinity''
      | Fin q \<Rightarrow>
          if q = 0 then ''0''
          else if q < 0 then ''-'' @ positive_to_string (- q)
          else positive_to_string q)"

text \<open>
  \<^verbatim>\<open>Number.prototype.toFixed(f)\<close> (ECMAScript 21.1.3.3): a value that is not
  finite, or of magnitude \<open>10 ^ 21\<close> and more, is printed as \<^verbatim>\<open>toString\<close> prints
  it; any other as the integer \<open>n\<close> nearest to \<open>x * 10 ^ f\<close> (the larger of two), with
  the point before its last \<open>f\<close> digits.
\<close>

definition toFixed :: "nat \<Rightarrow> jsnum \<Rightarrow> string" where
  "toFixed f x =
     (case x of
        NaN \<Rightarrow> ''NaN''
      | PInf \<Rightarrow> ''Infinity''
      | NInf \<Rightarrow> ''-Infinity''
      | Fin q \<Rightarrow>
          (let s = (if q < 0 then ''-'' else []);
               a = \<bar>q\<bar>
           in if 10 ^ 21 \<le> a then s @ number_to_string (Fin a)
              else (let n = \<lfloor>a * 10 ^ f + 1 / 2\<rfloor>;
                        m = digits n;
                        z = replicate (f + 1 - length m) CHR ''0'' @ m;
                        k = length z
                    in if f = 0 then s @ m
                       else s @ take (k - f) z @ ''.'' @ drop (k - f) z)))"

text \<open>
  \<^verbatim>\<open>StringToNumber\<close> on the texts \<^verbatim>\<open>toFixed\<close> produces: an optional sign, then
  \<^verbatim>\<open>Infinity\<close> or decimal digits with an optional fraction and exponent; any other
  text is \<^verbatim>\<open>NaN\<close>. (White space, and the hexadecimal, octal and binary literals of
  the full grammar, never come out of \<^verbatim>\<open>toFixed\<close>.)
\<close>

definition is_digit :: "char \<Rightarrow> bool" where
  "is_digit c = (c \<in> set ''0123456789'')"

definition digits_val :: "string \<Rightarrow> int" where
  "digits_val ds = foldl (\<lambda>a c. 10 * a + (of_char c - 48)) 0 ds"

definition exp_digits :: "string \<Rightarrow> int \<Rightarrow> int option" where
  "exp_digits ds sg = (if ds \<noteq> [] \<and> list_all is_digit ds then Some (sg * digits_val ds) else None)"

fun exponent_part :: "string \<Rightarrow> int option" where
  "exponent_part [] = Some 0"
| "exponent_part (c # t) =
     (if c = CHR ''e'' \<or> c = CHR ''E'' then
        (case t of
           [] \<Rightarrow> None
         | d # r \<Rightarrow> if d = CHR ''+'' then exp_digits r 1
                    else if d = CHR ''-'' then exp_digits r (- 1)
                    else exp_digits t 1)
      else None)"

definition unsigned_literal :: "string \<Rightarrow> rat option" where
  "unsigned_literal s =
     (let ip = takeWhile is_digit s;
          r = dropWhile is_digit s;
          fp = (case r of [] \<Rightarrow> [] | c # t \<Rightarrow> if c = CHR ''.'' then takeWhile is_digit t else []);
          r' = (case r of [] \<Rightarrow> [] | c # t \<Rightarrow> if c = CHR ''.'' then dropWhile is_digit t else r)
      in if ip = [] \<and> fp = [] then None
         else (case exponent_part r' of
                 None \<Rightarrow> None
               | Some e \<Rightarrow>
                   Some ((of_int (digits_val ip) + of_int (digits_val fp) / 10 ^ length fp) * pow10 e)))"

definition signed_literal :: "bool \<Rightarrow> string \<Rightarrow> jsnum" where
  "signed_literal neg s =
     (if s = ''Infinity'' then (if neg then NInf else PInf)
      else (case unsigned_literal s of
              None \<Rightarrow> NaN
            | Some v \<Rightarrow> to_double (if neg then - v else v)))"

definition string_to_number :: "string \<Rightarrow> jsnum" where
  "string_to_number s =
     (case s of
        [] \<Rightarrow> Fin 0
      | c # t \<Rightarrow> if c = CHR ''-'' then signed_literal True t
                 else if c = CHR ''+'' then signed_literal False t
                 else signed_literal False s)"

text \<open>The Number operations of the cycle: \<open>x < y\<close>, \<open>x === y\<close> and \<open>x * y\<close>, with
  \<^verbatim>\<open>NaN\<close> unordered and unequal to everything, itself included.\<close>

fun js_less :: "jsnum \<Rightarrow> jsnum \<Rightarrow> bool" where
  "js_less (Fin a) (Fin b) = (a < b)"
| "js_less (Fin a) PInf = True"
| "js_less NInf (Fin b) = True"
| "js_less NInf PInf = True"
| "js_less _ _ = False"

definition strict_eq :: "jsnum \<Rightarrow> jsnum \<Rightarrow> bool" where
  "strict_eq x y = (x \<noteq> NaN \<and> x = y)"

fun js_mul :: "jsnum \<Rightarrow> jsnum \<Rightarrow> jsnum" where
  "js_mul NaN _ = NaN"
| "js_mul _ NaN = NaN"
| "js_mul (Fin a) (Fin b) = to_double (a * b)"
| "js_mul (Fin a) PInf = (if a = 0 then NaN else if a < 0 then NInf else PInf)"
| "js_mul (Fin a) NInf = (if a = 0 then NaN else if a < 0 then PInf else NInf)"
| "js_mul PInf (Fin b) = (if b = 0 then NaN else if b < 0 then NInf else PInf)"
| "js_mul NInf (Fin b) = (if b = 0 then NaN else if b < 0 then PInf else NInf)"
| "js_mul PInf PInf = PInf"
| "js_mul PInf NInf = NInf"
| "js_mul NInf PInf = NInf"
| "js_mul NInf NInf = PInf"

section \<open>Errors, JSON values and labels\<close>

text \<open>
  What a \<^verbatim>\<open>throw\<close> or a rejected promise carries: an \<^verbatim>\<open>Error\<close> object with its
  \<^verbatim>\<open>message\<close>, or some other value that is not an \<^verbatim>\<open>Error\<close>, kept as the text
  the console prints for it. The capture callback rejects only with a truthy value
  (\<^verbatim>\<open>if (err) return reject(err)\<close>), and TensorFlow throws \<^verbatim>\<open>Error\<close> objects.
\<close>

datatype thrown = ErrorObj (message: string) | NonError string

definition bind_result :: "thrown + 'a \<Rightarrow> ('a \<Rightarrow> thrown + 'b) \<Rightarrow> thrown + 'b" where
  "bind_result r f = (case r of Inl e \<Rightarrow> Inl e | Inr x \<Rightarrow> f x)"

text \<open>The value \<^verbatim>\<open>JSON.parse\<close> returns; an object is the list of its properties.\<close>

datatype json =
    JNull
  | JBool bool
  | JNum jsnum
  | JStr string
  | JArr "json list"
  | JObj "(string \<times> json) list"

fun join :: "string \<Rightarrow> string list \<Rightarrow> string" where
  "join sep [] = []"
| "join sep [x] = x"
| "join sep (x # y # ys) = x @ sep @ join sep (y # ys)"

text \<open>The text of a value inside a template literal; an array is its elements joined
  by commas, a \<^verbatim>\<open>null\<close> element contributing nothing. (An object that has a
  property named \<^verbatim>\<open>toString\<close> of its own, which would be called or make the
  conversion throw, is not modelled; a label is a string.)\<close>

fun to_string :: "json \<Rightarrow> string" where
  "to_string JNull = ''null''"
| "to_string (JBool b) = (if b then ''true'' else ''false'')"
| "to_string (JNum x) = number_to_string x"
| "to_string (JStr s) = s"
| "to_string (JArr xs) = join '','' (map (\<lambda>v. if v = JNull then [] else to_string v) xs)"
| "to_string (JObj kvs) = ''[object Object]''"

text \<open>
  \<^verbatim>\<open>labels[topIdx]\<close>: \<open>None\<close> is \<^verbatim>\<open>undefined\<close>. Reading a property of
  \<^verbatim>\<open>null\<close> throws a \<^verbatim>\<open>TypeError\<close> (the message is V8's); an array or a string
  answers within its bounds, an object by the property named by the index, a boolean
  or a number has no such property.
\<close>

definition null_property_error :: "int \<Rightarrow> thrown" where
  "null_property_error i =
     ErrorObj (''Cannot read properties of null (reading '' @ [CHR 0x27] @ show_int i @ [CHR 0x27] @ '')'')"

fun get_index :: "json \<Rightarrow> int \<Rightarrow> thrown + json option" where
  "get_index JNull i = Inl (null_property_error i)"
| "get_index (JArr xs) i = Inr (if 0 \<le> i \<and> nat i < length xs then Some (xs ! nat i) else None)"
| "get_index (JStr s) i = Inr (if 0 \<le> i \<and> nat i < length s then Some (JStr [s ! nat i]) else None)"
| "get_index (JObj kvs) i = Inr (map_of kvs (show_int i))"
| "get_index (JBool b) i = Inr None"
| "get_index (JNum x) i = Inr None"

section \<open>The report of one cycle (lines 70 to 73)\<close>

text \<open>\<^verbatim>\<open>Math.max(...scores)\<close>: the greatest argument, \<^verbatim>\<open>-Infinity\<close> of none,
  \<^verbatim>\<open>NaN\<close> as soon as one argument is \<^verbatim>\<open>NaN\<close>. (The engine's bound on the
  number of arguments of one call is not modelled.)\<close>

definition Math_max :: "jsnum list \<Rightarrow> jsnum" where
  "Math_max xs =
     foldl (\<lambda>highest v. if highest = NaN \<or> v = NaN then NaN
                          else if js_less highest v then v else highest) NInf xs"

text \<open>\<^verbatim>\<open>scores.indexOf(v)\<close>: the first index whose element is strictly equal to
  \<open>v\<close>, and \<open>-1\<close> when there is none.\<close>

fun index_from :: "int \<Rightarrow> jsnum list \<Rightarrow> jsnum \<Rightarrow> int" where
  "index_from k [] v = - 1"
| "index_from k (x # xs) v = (if strict_eq v x then k else index_from (k + 1) xs v)"

definition indexOf :: "jsnum list \<Rightarrow> jsnum \<Rightarrow> int" where
  "indexOf xs v = index_from 0 xs v"

definition topIdx :: "jsnum list \<Rightarrow> int" where
  "topIdx scores = indexOf scores (Math_max scores)"

text \<open>\<^verbatim>\<open>labels[topIdx] ?? `class_${topIdx}`\<close>: the fallback replaces
  \<^verbatim>\<open>undefined\<close> and \<^verbatim>\<open>null\<close>, and nothing else.\<close>

definition class_name :: "int \<Rightarrow> string" where
  "class_name i = ''class_'' @ show_int i"

definition label :: "json \<Rightarrow> int \<Rightarrow> thrown + json" where
  "label labels i =
     bind_result (get_index labels i)
       (\<lambda>entry. case entry of
                   None \<Rightarrow> Inr (JStr (class_name i))
                 | Some v \<Rightarrow> Inr (if v = JNull then JStr (class_name i) else v))"

text \<open>\<^verbatim>\<open>(scores[topIdx] * 100).toFixed(1)\<close>: an index outside the array reads
  \<^verbatim>\<open>undefined\<close>, whose Number value is \<^verbatim>\<open>NaN\<close>.\<close>

definition score_at :: "jsnum list \<Rightarrow> int \<Rightarrow> jsnum option" where
  "score_at scores i = (if 0 \<le> i \<and> nat i < length scores then Some (scores ! nat i) else None)"

definition to_number :: "jsnum option \<Rightarrow> jsnum" where
  "to_number v = (case v of None \<Rightarrow> NaN | Some x \<Rightarrow> x)"

definition confidence :: "jsnum list \<Rightarrow> int \<Rightarrow> string" where
  "confidence scores i = toFixed 1 (js_mul (to_number (score_at scores i)) (Fin 100))"

text \<open>
  \<^verbatim>\<open>scores.map(v => v.toFixed(2)).join(', ')\<close>. \<^verbatim>\<open>scores\<close> is the
  \<^verbatim>\<open>Float32Array\<close> that \<^verbatim>\<open>dataSync\<close> returns, and the \<^verbatim>\<open>map\<close> of a typed
  array builds a typed array of the same kind: each text the callback returns is
  converted to a Number and stored as a 32-bit float, and \<^verbatim>\<open>join\<close> prints the
  stored Numbers. \<open>float32_array\<close> is the array \<^verbatim>\<open>new Float32Array([...])\<close> of
  given reals.
\<close>

definition float32_array :: "rat list \<Rightarrow> jsnum list" where
  "float32_array xs = map to_float32 xs"

definition store_float32 :: "jsnum \<Rightarrow> jsnum" where
  "store_float32 x = (case x of Fin q \<Rightarrow> to_float32 q | _ \<Rightarrow> x)"

definition typed_map :: "(jsnum \<Rightarrow> string) \<Rightarrow> jsnum list \<Rightarrow> jsnum list" where
  "typed_map f xs = map (\<lambda>v. store_float32 (string_to_number (f v))) xs"

definition typed_join :: "string \<Rightarrow> jsnum list \<Rightarrow> string" where
  "typed_join sep xs = join sep (map number_to_string xs)"

definition scores_text :: "jsnum list \<Rightarrow> string" where
  "scores_text scores = typed_join '', '' (typed_map (toFixed 2) scores)"

definition log_line :: "string \<Rightarrow> json \<Rightarrow> string \<Rightarrow> jsnum list \<Rightarrow> string" where
  "log_line ts lbl conf scores =
     ''['' @ ts @ ''] '' @ to_string lbl @ '' ('' @ conf @ ''%) | scores='' @ scores_text scores"

text \<open>Lines 70 to 73: the line written to standard output, or what line 71 throws.
  \<open>ts\<close> is the text of \<^verbatim>\<open>new Date().toISOString()\<close>, read from the clock.\<close>

definition report :: "json \<Rightarrow> string \<Rightarrow> jsnum list \<Rightarrow> thrown + string" where
  "report labels ts scores =
     (let i = topIdx scores
      in bind_result (label labels i)
           (\<lambda>lbl. Inr (log_line ts lbl (confidence scores i) scores)))"

section \<open>Capture and inference (lines 37 to 55)\<close>

definition CAPTURE_MS :: nat where
  "CAPTURE_MS = 5000"

definition INPUT_SIZE :: nat where
  "INPUT_SIZE = 224"

text \<open>\<^verbatim>\<open>captureFrame\<close>: the promise settles when the webcam calls back with
  \<open>(err, data)\<close>; a truthy \<open>err\<close> (\<open>Some\<close>) rejects it, anything else resolves it.\<close>

definition captureFrame :: "thrown option \<Rightarrow> 'f \<Rightarrow> thrown + 'f" where
  "captureFrame err data = (case err of Some e \<Rightarrow> Inl e | None \<Rightarrow> Inr data)"

text \<open>The TensorFlow operations \<^verbatim>\<open>predict\<close> calls belong to the library; each is
  a function of the environment that returns a tensor or throws. \<^verbatim>\<open>tf.tidy\<close>
  releases the intermediate tensors and hands on what its function returns or
  throws, so it does not show in the result.\<close>

record ('f, 't, 'm) tf =
  decodeImage :: "'f \<Rightarrow> nat \<Rightarrow> thrown + 't"
  resizeBilinear :: "'t \<Rightarrow> nat \<times> nat \<Rightarrow> thrown + 't"
  div_by :: "'t \<Rightarrow> nat \<Rightarrow> thrown + 't"
  expandDims :: "'t \<Rightarrow> nat \<Rightarrow> thrown + 't"
  model_predict :: "'m \<Rightarrow> 't \<Rightarrow> thrown + 't"
  dataSync :: "'t \<Rightarrow> thrown + jsnum list"

definition predict :: "('f, 't, 'm) tf \<Rightarrow> 'm \<Rightarrow> 'f \<Rightarrow> thrown + jsnum list" where
  "predict lib model buffer =
     bind_result (decodeImage lib buffer 3) (\<lambda>image.
     bind_result (resizeBilinear lib image (INPUT_SIZE, INPUT_SIZE)) (\<lambda>resized.
     bind_result (div_by lib resized 255) (\<lambda>normalized.
     bind_result (expandDims lib normalized 0) (\<lambda>batched.
     bind_result (model_predict lib model batched) (\<lambda>logits.
     dataSync lib logits)))))"

section \<open>Startup (lines 15 to 22, 57 to 62 and 82 to 84)\<close>

text \<open>
  What the environment answers at startup: the outcome of loading the model, of
  reading the metadata file, which of the two settles first when both fail
  (\<^verbatim>\<open>Promise.all\<close> rejects with the first rejection), \<^verbatim>\<open>JSON.parse\<close>, and the
  outcome of \<^verbatim>\<open>NodeWebcam.create\<close>.
\<close>

record 'm startup =
  loadLayersModel :: "thrown + 'm"
  readFile :: "thrown + string"
  readFile_first :: bool
  JSON_parse :: "string \<Rightarrow> thrown + json"
  NodeWebcam_create :: "thrown + unit"

definition Promise_all :: "bool \<Rightarrow> thrown + 'a \<Rightarrow> thrown + 'b \<Rightarrow> thrown + 'a \<times> 'b" where
  "Promise_all second_first a b =
     (case a of
        Inr x \<Rightarrow> (case b of Inr y \<Rightarrow> Inr (x, y) | Inl e \<Rightarrow> Inl e)
      | Inl e \<Rightarrow> (case b of Inr y \<Rightarrow> Inl e | Inl e' \<Rightarrow> Inl (if second_first then e' else e)))"

text \<open>\<^verbatim>\<open>const { labels = [] } = ...\<close>: the default stands in for a property
  that is \<^verbatim>\<open>undefined\<close>; destructuring \<^verbatim>\<open>null\<close> throws a \<^verbatim>\<open>TypeError\<close>,
  whose wording differs between versions of the engine and is used nowhere.\<close>

definition destructure_error :: thrown where
  "destructure_error =
     ErrorObj (''Cannot destructure property '' @ [CHR 0x27] @ ''labels'' @ [CHR 0x27] @
               '' of '' @ [CHR 0x27] @ ''JSON.parse(...)'' @ [CHR 0x27] @ '' as it is null.'')"

fun destructure_labels :: "json \<Rightarrow> thrown + json" where
  "destructure_labels JNull = Inl destructure_error"
| "destructure_labels (JObj kvs) = Inr (case map_of kvs ''labels'' of None \<Rightarrow> JArr [] | Some v \<Rightarrow> v)"
| "destructure_labels _ = Inr (JArr [])"

definition loadModelAndLabels :: "'m startup \<Rightarrow> thrown + 'm \<times> json" where
  "loadModelAndLabels env =
     bind_result (Promise_all (readFile_first env) (loadLayersModel env) (readFile env))
       (\<lambda>(model, metadataRaw).
          bind_result (JSON_parse env metadataRaw) (\<lambda>parsed.
          bind_result (destructure_labels parsed) (\<lambda>labels. Inr (model, labels))))"

text \<open>What \<^verbatim>\<open>console.error\<close> is given after its prefix: a text, or a thrown value
  that the console formats.\<close>

datatype console_arg = Text string | Inspect thrown

text \<open>
  The state of the process. \<open>session\<close> is \<open>None\<close> until \<^verbatim>\<open>main\<close> has passed
  startup; from then on the interval timer of period \<open>CAPTURE_MS\<close> is registered and
  its callback closes over the model and the labels. \<open>running\<close> is the guard of
  line 60. \<open>pending\<close> counts the activations of the callback that are suspended at
  \<^verbatim>\<open>await captureFrame(webcam)\<close>: the cycles in progress.
\<close>

record 'm proc =
  session :: "('m \<times> json) option"
  running :: bool
  pending :: nat
  stdout :: "string list"
  stderr :: "(string \<times> console_arg) list"

definition main :: "'m startup \<Rightarrow> 'm proc" where
  "main env =
     (case bind_result (loadModelAndLabels env)
             (\<lambda>loaded. bind_result (NodeWebcam_create env) (\<lambda>webcam. Inr loaded)) of
        Inr loaded \<Rightarrow>
          \<lparr>session = Some loaded, running = False, pending = 0,
           stdout = [''Model loaded. Capturing from webcam every 5 seconds...''], stderr = []\<rparr>
      | Inl err \<Rightarrow>
          \<lparr>session = None, running = False, pending = 0,
           stdout = [], stderr = [(''Failed to start:'', Inspect err)]\<rparr>)"

text \<open>
  The interval timer, when registered. Nothing in the program clears it, assigns
  \<^verbatim>\<open>process.exitCode\<close> or calls \<^verbatim>\<open>process.exit\<close>: with a timer the event loop
  never drains and the process does not exit (\<open>None\<close>); without one Node exits with
  status 0 once the handler of line 83 has run.
\<close>

definition timer :: "'m proc \<Rightarrow> nat option" where
  "timer s = (case session s of None \<Rightarrow> None | Some loaded \<Rightarrow> Some CAPTURE_MS)"

definition exit_status :: "'m proc \<Rightarrow> nat option" where
  "exit_status s = (case timer s of None \<Rightarrow> Some 0 | Some ms \<Rightarrow> None)"

section \<open>The timer loop (lines 64 to 79)\<close>

text \<open>
  Node runs one callback at a time. An event is a tick of the interval timer, or the
  webcam calling back with \<open>(err, data)\<close>, which resumes a suspended cycle; \<open>ts\<close> is
  what the clock reads when that cycle prints. Suspended cycles share one
  continuation (the same model and labels), so a callback need not say which one it
  resumes.
\<close>

datatype 'f event = Tick | Callback "thrown option" 'f string

text \<open>Lines 68 to 73, from the callback on: the line printed, or the error caught.\<close>

definition cycle :: "('f, 't, 'm) tf \<Rightarrow> 'm \<Rightarrow> json \<Rightarrow> thrown option \<Rightarrow> 'f \<Rightarrow> string \<Rightarrow> thrown + string" where
  "cycle lib model labels err data ts =
     bind_result (captureFrame err data) (\<lambda>frame.
     bind_result (predict lib model frame) (\<lambda>scores.
     report labels ts scores))"

text \<open>Line 75: \<^verbatim>\<open>err.message || err\<close>.\<close>

definition catch_log :: "thrown \<Rightarrow> string \<times> console_arg" where
  "catch_log err =
     (''Capture/predict error:'',
      case err of
        ErrorObj m \<Rightarrow> if m \<noteq> [] then Text m else Inspect err
      | NonError v \<Rightarrow> Inspect err)"

definition tick :: "'m proc \<Rightarrow> 'm proc" where
  "tick s = (if running s then s else s\<lparr>running := True, pending := Suc (pending s)\<rparr>)"

definition resume :: "('f, 't, 'm) tf \<Rightarrow> 'm \<Rightarrow> json \<Rightarrow> thrown option \<Rightarrow> 'f \<Rightarrow> string \<Rightarrow> 'm proc \<Rightarrow> 'm proc" where
  "resume lib model labels err data ts s =
     (let s' = (case cycle lib model labels err data ts of
                  Inr line \<Rightarrow> s\<lparr>stdout := stdout s @ [line]\<rparr>
                | Inl e \<Rightarrow> s\<lparr>stderr := stderr s @ [catch_log e]\<rparr>)
      in s'\<lparr>running := False, pending := pending s - 1\<rparr>)"

fun step :: "('f, 't, 'm) tf \<Rightarrow> 'm proc \<Rightarrow> 'f event \<Rightarrow> 'm proc" where
  "step lib s Tick = (case session s of None \<Rightarrow> s | Some loaded \<Rightarrow> tick s)"
| "step lib s (Callback err data ts) =
     (case session s of
        None \<Rightarrow> s
      | Some (model, labels) \<Rightarrow>
          if pending s = 0 then s else resume lib model labels err data ts s)"

definition run :: "('f, 't, 'm) tf \<Rightarrow> 'm proc \<Rightarrow> 'f event list \<Rightarrow> 'm proc" where
  "run lib s evs = foldl (step lib) s evs"

text \<open>The guard's invariant: at most one cycle is suspended, the flag is set exactly
  while one is, and a cycle is only ever suspended in a process that passed startup.\<close>

definition guard_ok :: "'m proc \<Rightarrow> bool" where
  "guard_ok s = (pending s \<le> 1 \<and> running s = (pending s = 1) \<and> (pending s = 0 \<or> session s \<noteq> None))"

section \<open>Example environments\<close>

text \<open>A library whose frames either do not decode (\<open>None\<close>) or are pictures the
  model scores with a given vector, a startup that succeeds with a given parsed
  metadata value, and one whose metadata file is not JSON.\<close>

definition example_lib :: "(jsnum list option, jsnum list, unit) tf" where
  "example_lib =
     \<lparr>decodeImage = (\<lambda>buffer channels. case buffer of
                        None \<Rightarrow> Inl (ErrorObj ''Expected image (BMP, JPEG, PNG, or GIF)'')
                      | Some pixels \<Rightarrow> Inr pixels),
      resizeBilinear = (\<lambda>image size. Inr image),
      div_by = (\<lambda>image d. Inr image),
      expandDims = (\<lambda>image axis. Inr image),
      model_predict = (\<lambda>model batched. Inr batched),
      dataSync = (\<lambda>logits. Inr logits)\<rparr>"

text \<open>A library that keeps of a tensor only its shape and its largest value: a
  decoded picture has values up to 255, and the model accepts a batch of one picture
  of 224 by 224 pixels and 3 channels with values up to 1, answering that largest
  value as its only score.\<close>

definition shape_lib :: "(nat \<times> nat, nat list \<times> rat, unit) tf" where
  "shape_lib =
     \<lparr>decodeImage = (\<lambda>(h, w) channels. Inr ([h, w, channels], 255)),
      resizeBilinear = (\<lambda>(shape, top) (h, w). Inr ([h, w] @ drop 2 shape, top)),
      div_by = (\<lambda>(shape, top) d. Inr (shape, top / of_nat d)),
      expandDims = (\<lambda>(shape, top) axis. Inr (take axis shape @ [1] @ drop axis shape, top)),
      model_predict = (\<lambda>model (shape, top).
         if shape = [1, 224, 224, 3] \<and> top \<le> 1 then Inr ([1, 1], top)
         else Inl (ErrorObj ''Error when checking input'')),
      dataSync = (\<lambda>(shape, top). Inr [Fin top])\<rparr>"

definition example_env :: "json \<Rightarrow> unit startup" where
  "example_env parsed =
     \<lparr>loadLayersModel = Inr (),
      readFile = Inr ''metadata.json'',
      readFile_first = False,
      JSON_parse = (\<lambda>raw. Inr parsed),
      NodeWebcam_create = Inr ()\<rparr>"

definition invalid_json_env :: "unit startup" where
  "invalid_json_env =
     \<lparr>loadLayersModel = Inr (),
      readFile = Inr ''{'',
      readFile_first = False,
      JSON_parse = (\<lambda>raw. Inl (ErrorObj ''Unexpected end of JSON input'')),
      NodeWebcam_create = Inr ()\<rparr>"

section \<open>The guard of the timer loop\<close>

declare floor_log.simps [simp del] digits.simps [simp del] shortest.simps [simp del]

lemma tick_ok: "guard_ok s \<Longrightarrow> session s \<noteq> None \<Longrightarrow> guard_ok (tick s)"
  by (auto simp: guard_ok_def tick_def)

lemma resume_ok:
  "guard_ok s \<Longrightarrow> pending s \<noteq> 0 \<Longrightarrow>
   pending (resume lib model labels err data ts s) = 0 \<and> \<not> running (resume lib model labels err data ts s)"
  by (auto simp: guard_ok_def resume_def Let_def split: sum.splits)

lemma step_ok: "guard_ok s \<Longrightarrow> guard_ok (step lib s ev)"
proof (cases ev)
  case Tick
  assume "guard_ok s"
  then show ?thesis using Tick tick_ok [of s] by (auto split: option.splits)
next
  case (Callback err data ts)
  assume ok: "guard_ok s"
  show ?thesis
  proof (cases "session s")
    case None
    then show ?thesis using ok Callback by simp
  next
    case (Some loaded)
    obtain model labels where l: "loaded = (model, labels)" by (cases loaded)
    show ?thesis
    proof (cases "pending s = 0")
      case True
      then show ?thesis using ok Callback Some l by simp
    next
      case False
      then show ?thesis
        using Callback Some l resume_ok [OF ok False, of lib model labels err data ts]
        by (simp add: guard_ok_def)
    qed
  qed
qed

lemma run_ok: "guard_ok s \<Longrightarrow> guard_ok (run lib s evs)"
  unfolding run_def
  by (induction evs arbitrary: s) (simp_all add: step_ok)

lemma main_ok: "guard_ok (main env)"
  by (simp add: guard_ok_def main_def split: sum.splits)

lemma step_Callback_idle: "guard_ok s \<Longrightarrow> \<not> running (step lib s (Callback err data ts))"
proof -
  assume ok: "guard_ok s"
  have "guard_ok (step lib s (Callback err data ts))" using ok by (rule step_ok)
  moreover have "pending (step lib s (Callback err data ts)) = 0"
  proof (cases "session s")
    case None
    then show ?thesis using ok by (auto simp: guard_ok_def)
  next
    case (Some loaded)
    obtain model labels where l: "loaded = (model, labels)" by (cases loaded)
    show ?thesis
    proof (cases "pending s = 0")
      case True
      then show ?thesis using Some l by simp
    next
      case False
      then show ?thesis using Some l resume_ok [OF ok False, of lib model labels err data ts] by simp
    qed
  qed
  ultimately show ?thesis by (simp add: guard_ok_def)
qed

lemma step_Tick_dropped: "running s \<Longrightarrow> step lib s Tick = s"
  by (simp add: tick_def split: option.splits)

lemma session_step: "session (step lib s ev) = session s"
  by (cases ev) (auto simp: tick_def resume_def Let_def split: option.splits sum.splits)

lemma session_run: "session (run lib s evs) = session s"
  unfolding run_def
  by (induction evs arbitrary: s) (simp_all add: session_step)

lemma example_main:
  "main (example_env parsed) =
     (case destructure_labels parsed of
        Inr labels \<Rightarrow> \<lparr>session = Some ((), labels), running = False, pending = 0,
           stdout = [''Model loaded. Capturing from webcam every 5 seconds...''], stderr = []\<rparr>
      | Inl err \<Rightarrow> \<lparr>session = None, running = False, pending = 0,
           stdout = [], stderr = [(''Failed to start:'', Inspect err)]\<rparr>)"
  by (simp add: main_def example_env_def loadModelAndLabels_def Promise_all_def bind_result_def
      split: sum.splits)

text \<open>
  C1. Whatever ticks and webcam callbacks arrive, in whatever order, after startup:
  at most one capture/predict cycle is in progress, and the \<open>running\<close> flag is set
  exactly while one is; a tick that fires while the flag is set leaves the whole state
  as it was (no second cycle starts, and nothing records the tick for later); and
  when a callback has been handled the flag is down, whether the resumed cycle
  printed its line or its error was caught.
\<close>

theorem guard_invariant:
  "pending (run lib (main env) evs) \<le> 1 \<and>
   running (run lib (main env) evs) = (pending (run lib (main env) evs) = 1) \<and>
   (running (run lib (main env) evs) \<longrightarrow>
      step lib (run lib (main env) evs) Tick = run lib (main env) evs) \<and>
   \<not> running (step lib (run lib (main env) evs) (Callback err data ts))"
proof -
  have ok: "guard_ok (run lib (main env) evs)"
    by (rule run_ok) (rule main_ok)
  have a: "pending (run lib (main env) evs) \<le> 1 \<and>
      running (run lib (main env) evs) = (pending (run lib (main env) evs) = 1)"
    using ok by (simp add: guard_ok_def)
  have b: "running (run lib (main env) evs) \<longrightarrow>
      step lib (run lib (main env) evs) Tick = run lib (main env) evs"
    using step_Tick_dropped [of "run lib (main env) evs" lib] by blast
  have c: "\<not> running (step lib (run lib (main env) evs) (Callback err data ts))"
    by (rule step_Callback_idle [OF ok])
  from a b c show ?thesis by blast
qed

theorem guard_invariant_witness:
  "running (run example_lib (main (example_env (JObj []))) [Tick, Tick]) \<and>
   pending (run example_lib (main (example_env (JObj []))) [Tick, Tick]) = 1 \<and>
   step example_lib (run example_lib (main (example_env (JObj []))) [Tick, Tick]) Tick =
     run example_lib (main (example_env (JObj []))) [Tick, Tick] \<and>
   \<not> running (step example_lib (run example_lib (main (example_env (JObj []))) [Tick, Tick])
        (Callback None (Some [Fin 1]) ''t''))"
  using guard_invariant [of example_lib "example_env (JObj [])" "[Tick, Tick]" None "Some [Fin 1]" "''t''"]
  by (simp add: run_def example_main tick_def)

section \<open>Errors inside a cycle\<close>

lemma cycle_capture_error: "captureFrame err data = Inl e \<Longrightarrow> cycle lib model labels err data ts = Inl e"
  by (simp add: cycle_def bind_result_def)

lemma predict_decode_error: "decodeImage lib frame 3 = Inl e \<Longrightarrow> predict lib model frame = Inl e"
  by (simp add: predict_def bind_result_def)

lemma cycle_predict_error:
  "captureFrame err data = Inr frame \<Longrightarrow> predict lib model frame = Inl e \<Longrightarrow>
   cycle lib model labels err data ts = Inl e"
  by (simp add: cycle_def bind_result_def)

lemma resume_failed:
  "cycle lib model labels err data ts = Inl e \<Longrightarrow>
   resume lib model labels err data ts s =
     s\<lparr>stderr := stderr s @ [catch_log e], running := False, pending := pending s - 1\<rparr>"
  by (simp add: resume_def)

text \<open>
  C3. Let a cycle be in progress in a running process, and let its capture be
  rejected, or its frame fail to decode, or the inference throw. When the webcam
  calls back, standard output is unchanged (no prediction line), standard error
  gains exactly one entry, \<^verbatim>\<open>Capture/predict error:\<close> with the message of the
  error, the flag is down, the timer stays registered and the process does not exit.
  The next tick starts a cycle, and what that cycle prints or logs is determined by
  its own callback alone.
\<close>

theorem cycle_error_isolated:
  assumes reach: "s = run lib (main env) evs"
    and loaded: "session s = Some (model, labels)"
    and busy: "running s"
    and failed: "captureFrame err data = Inl e \<or>
       (captureFrame err data = Inr frame \<and>
          (decodeImage lib frame 3 = Inl e \<or> predict lib model frame = Inl e))"
  shows "stdout (step lib s (Callback err data ts)) = stdout s \<and>
     stderr (step lib s (Callback err data ts)) = stderr s @ [catch_log e] \<and>
     fst (catch_log e) = ''Capture/predict error:'' \<and>
     (message e \<noteq> [] \<and> e = ErrorObj (message e) \<longrightarrow> snd (catch_log e) = Text (message e)) \<and>
     \<not> running (step lib s (Callback err data ts)) \<and>
     pending (step lib s (Callback err data ts)) = 0 \<and>
     timer (step lib s (Callback err data ts)) = Some CAPTURE_MS \<and>
     exit_status (step lib s (Callback err data ts)) = None \<and>
     running (step lib (step lib s (Callback err data ts)) Tick) \<and>
     pending (step lib (step lib s (Callback err data ts)) Tick) = 1 \<and>
     stdout (step lib (step lib (step lib s (Callback err data ts)) Tick) (Callback err' data' ts')) =
       stdout s @ (case cycle lib model labels err' data' ts' of Inr line \<Rightarrow> [line] | Inl e' \<Rightarrow> []) \<and>
     stderr (step lib (step lib (step lib s (Callback err data ts)) Tick) (Callback err' data' ts')) =
       stderr s @ [catch_log e] @
         (case cycle lib model labels err' data' ts' of Inr line \<Rightarrow> [] | Inl e' \<Rightarrow> [catch_log e'])"
proof -
  have ok: "guard_ok s" unfolding reach by (rule run_ok) (rule main_ok)
  with busy have p: "pending s = 1" by (simp add: guard_ok_def)
  have c: "cycle lib model labels err data ts = Inl e"
    using failed cycle_capture_error cycle_predict_error predict_decode_error by metis
  have s1: "step lib s (Callback err data ts) =
      s\<lparr>stderr := stderr s @ [catch_log e], running := False, pending := 0\<rparr>"
    using loaded p by (simp add: resume_failed [OF c])
  have s2: "step lib (step lib s (Callback err data ts)) Tick =
      s\<lparr>stderr := stderr s @ [catch_log e], running := True, pending := 1\<rparr>"
    unfolding s1 using loaded by (simp add: tick_def)
  have s3: "step lib (step lib (step lib s (Callback err data ts)) Tick) (Callback err' data' ts') =
      resume lib model labels err' data' ts' (s\<lparr>stderr := stderr s @ [catch_log e], running := True, pending := 1\<rparr>)"
    unfolding s2 using loaded by simp
  have m: "fst (catch_log e) = ''Capture/predict error:'' \<and>
     (message e \<noteq> [] \<and> e = ErrorObj (message e) \<longrightarrow> snd (catch_log e) = Text (message e))"
    by (cases e) (simp_all add: catch_log_def)
  show ?thesis
    unfolding s3 unfolding s2 unfolding s1 using loaded m
    by (simp add: timer_def exit_status_def resume_def split: sum.splits)
qed

theorem cycle_error_isolated_witness:
  "stdout (run example_lib (main (example_env (JObj [])))
      [Tick, Callback (Some (ErrorObj ''no camera'')) None ''t1'']) =
     [''Model loaded. Capturing from webcam every 5 seconds...''] \<and>
   stderr (run example_lib (main (example_env (JObj [])))
      [Tick, Callback (Some (ErrorObj ''no camera'')) None ''t1'']) =
     [(''Capture/predict error:'', Text ''no camera'')] \<and>
   running (run example_lib (main (example_env (JObj [])))
      [Tick, Callback (Some (ErrorObj ''no camera'')) None ''t1'', Tick])"
  using cycle_error_isolated [where s = "run example_lib (main (example_env (JObj []))) [Tick]"
      and lib = example_lib and env = "example_env (JObj [])" and evs = "[Tick]" and model = "()"
      and labels = "JArr []" and err = "Some (ErrorObj ''no camera'')" and data = None
      and e = "ErrorObj ''no camera''" and frame = None and ts = "''t1''" and err' = None
      and data' = "Some [Fin 1]" and ts' = "''t2''"]
  by (simp add: run_def example_main tick_def captureFrame_def catch_log_def)

section \<open>The inference pipeline\<close>

text \<open>
  C6. For every frame, \<^verbatim>\<open>predict\<close> returns a score vector exactly when these
  steps succeed, each on the result of the one before: the bytes are decoded with 3
  channels, the picture is resized bilinearly to 224 by 224, the result is divided by
  255 and by nothing else, a batch axis is added in front (axis 0), the model is
  invoked on that batch, and the data of its output is read out, which is the vector
  returned. It throws exactly when one of the steps throws, with the error of the
  first step that does; no later step then runs. What each step computes is the
  library's.
\<close>

theorem predict_pipeline:
  "(predict lib model buffer = Inr v) =
     (\<exists>image resized normalized batched logits.
        decodeImage lib buffer 3 = Inr image \<and>
        resizeBilinear lib image (224, 224) = Inr resized \<and>
        div_by lib resized 255 = Inr normalized \<and>
        expandDims lib normalized 0 = Inr batched \<and>
        model_predict lib model batched = Inr logits \<and>
        dataSync lib logits = Inr v) \<and>
   (predict lib model buffer = Inl e) =
     (decodeImage lib buffer 3 = Inl e \<or>
      (\<exists>image. decodeImage lib buffer 3 = Inr image \<and>
        (resizeBilinear lib image (224, 224) = Inl e \<or>
         (\<exists>resized. resizeBilinear lib image (224, 224) = Inr resized \<and>
           (div_by lib resized 255 = Inl e \<or>
            (\<exists>normalized. div_by lib resized 255 = Inr normalized \<and>
              (expandDims lib normalized 0 = Inl e \<or>
               (\<exists>batched. expandDims lib normalized 0 = Inr batched \<and>
                 (model_predict lib model batched = Inl e \<or>
                  (\<exists>logits. model_predict lib model batched = Inr logits \<and>
                     dataSync lib logits = Inl e))))))))))"
  by (auto simp: predict_def bind_result_def INPUT_SIZE_def split: sum.splits)

theorem predict_pipeline_witness:
  "predict shape_lib () (480, 640) = Inr [Fin 1] \<and>
   predict example_lib () None = Inl (ErrorObj ''Expected image (BMP, JPEG, PNG, or GIF)'')"
proof -
  have a: "\<exists>image resized normalized batched logits.
        decodeImage shape_lib (480, 640) 3 = Inr image \<and>
        resizeBilinear shape_lib image (224, 224) = Inr resized \<and>
        div_by shape_lib resized 255 = Inr normalized \<and>
        expandDims shape_lib normalized 0 = Inr batched \<and>
        model_predict shape_lib () batched = Inr logits \<and>
        dataSync shape_lib logits = Inr [Fin 1]"
    by (simp add: shape_lib_def)
  have b: "decodeImage example_lib None 3 = Inl (ErrorObj ''Expected image (BMP, JPEG, PNG, or GIF)'')"
    by (simp add: example_lib_def)
  from a b predict_pipeline [of shape_lib "()" "(480, 640)" "[Fin 1]"]
    predict_pipeline [of example_lib "()" None _ "ErrorObj ''Expected image (BMP, JPEG, PNG, or GIF)''"]
  show ?thesis by blast
qed

section \<open>Startup failure\<close>

lemma load_failed:
  "(\<exists>e. loadLayersModel env = Inl e) \<or> (\<exists>e. readFile env = Inl e) \<or>
   (\<exists>raw e. readFile env = Inr raw \<and> JSON_parse env raw = Inl e) \<Longrightarrow>
   \<exists>e. loadModelAndLabels env = Inl e"
  by (auto simp: loadModelAndLabels_def Promise_all_def bind_result_def split: sum.splits)

lemma run_not_started: "session s = None \<Longrightarrow> run lib s evs = s"
  unfolding run_def
proof (induction evs)
  case Nil
  then show ?case by simp
next
  case (Cons ev evs)
  then have "step lib s ev = s" by (cases ev) simp_all
  with Cons show ?case by simp
qed

lemma invalid_json_main:
  "main invalid_json_env = \<lparr>session = None, running = False, pending = 0,
           stdout = [], stderr = [(''Failed to start:'', Inspect (ErrorObj ''Unexpected end of JSON input''))]\<rparr>"
  by (simp add: main_def invalid_json_env_def loadModelAndLabels_def Promise_all_def bind_result_def)

text \<open>
  C4, as the code has it. When the model cannot be loaded, or the metadata file cannot
  be read or parsed, the process writes \<^verbatim>\<open>Failed to start:\<close> with the error to
  standard error and never registers the timer: whatever events follow, the state
  does not change and no cycle is ever in progress. The handler of line 83 sets no
  exit code, so the process ends with status 0 once its event loop is empty.
\<close>

theorem startup_failure:
  assumes "(\<exists>e. loadLayersModel env = Inl e) \<or> (\<exists>e. readFile env = Inl e) \<or>
   (\<exists>raw e. readFile env = Inr raw \<and> JSON_parse env raw = Inl e)"
  shows "\<exists>e. loadModelAndLabels env = Inl e \<and>
     stderr (main env) = [(''Failed to start:'', Inspect e)] \<and>
     stdout (main env) = [] \<and>
     timer (main env) = None \<and>
     run lib (main env) evs = main env \<and>
     pending (run lib (main env) evs) = 0 \<and>
     exit_status (run lib (main env) evs) = Some 0"
proof -
  from assms obtain e where e: "loadModelAndLabels env = Inl e"
    using load_failed [of env] by blast
  then have m: "main env = \<lparr>session = None, running = False, pending = 0,
           stdout = [], stderr = [(''Failed to start:'', Inspect e)]\<rparr>"
    by (simp add: main_def bind_result_def)
  then have n: "session (main env) = None" by simp
  show ?thesis
    using e by (simp add: run_not_started [OF n]) (simp add: m timer_def exit_status_def)
qed

theorem startup_failure_witness:
  "stderr (main invalid_json_env) =
     [(''Failed to start:'', Inspect (ErrorObj ''Unexpected end of JSON input''))] \<and>
   run example_lib (main invalid_json_env) [Tick, Tick, Callback None (Some [Fin 1]) ''t''] =
     main invalid_json_env \<and>
   exit_status (run example_lib (main invalid_json_env) [Tick, Tick, Callback None (Some [Fin 1]) ''t'']) =
     Some 0"
proof -
  have h: "(\<exists>e. loadLayersModel invalid_json_env = Inl e) \<or> (\<exists>e. readFile invalid_json_env = Inl e) \<or>
     (\<exists>raw e. readFile invalid_json_env = Inr raw \<and> JSON_parse invalid_json_env raw = Inl e)"
    by (simp add: invalid_json_env_def)
  from startup_failure [OF h, of example_lib "[Tick, Tick, Callback None (Some [Fin 1]) ''t'']"]
  show ?thesis by (auto simp: invalid_json_main)
qed

text \<open>The metadata file holds \<^verbatim>\<open>{\<close>, which is not JSON: the exit status is 0.\<close>

theorem startup_failure_exit_code:
  "readFile invalid_json_env = Inr ''{'' \<and>
   JSON_parse invalid_json_env ''{'' = Inl (ErrorObj ''Unexpected end of JSON input'') \<and>
   exit_status (main invalid_json_env) = Some 0 \<and>
   \<not> (\<exists>c. exit_status (main invalid_json_env) = Some c \<and> c \<noteq> 0)"
  by (simp add: invalid_json_main timer_def exit_status_def) (simp add: invalid_json_env_def)

section \<open>Labels\<close>

lemma show_int_minus_one: "show_int (- 1) = ''-1''"
  by (simp add: show_int_def digits.simps digit_char_def)

lemma label_array:
  "label (JArr ls) i =
     Inr (if 0 \<le> i \<and> nat i < length ls \<and> ls ! nat i \<noteq> JNull then ls ! nat i else JStr (class_name i))"
  by (simp add: label_def bind_result_def)

text \<open>
  C5. With the labels an array: for an index with no entry (negative, or at or beyond
  the length of the array, as happens when the score vector is longer than the label
  list) the label is \<^verbatim>\<open>class_\<close> followed by the decimal digits of the index; for
  an index whose entry is a string, or any other value but \<^verbatim>\<open>null\<close>, the label is
  that entry, and it is the text of the entry that the line shows.
\<close>

theorem label_fallback:
  "(\<not> (0 \<le> i \<and> nat i < length ls) \<longrightarrow>
      label (JArr ls) i = Inr (JStr (''class_'' @ show_int i))) \<and>
   (0 \<le> i \<and> nat i < length ls \<and> ls ! nat i \<noteq> JNull \<longrightarrow>
      label (JArr ls) i = Inr (ls ! nat i)) \<and>
   (label (JArr ls) (topIdx scores) = Inr lbl \<longrightarrow>
      report (JArr ls) ts scores =
        Inr (''['' @ ts @ ''] '' @ to_string lbl @ '' ('' @ confidence scores (topIdx scores) @
             ''%) | scores='' @ scores_text scores)) \<and>
   to_string (JStr name) = name"
  by (simp add: label_array class_name_def report_def Let_def bind_result_def log_line_def)

theorem label_fallback_witness:
  "label (JArr [JStr ''rock'', JStr ''paper'']) 3 = Inr (JStr ''class_3'') \<and>
   label (JArr [JStr ''rock'', JStr ''paper'']) 1 = Inr (JStr ''paper'') \<and>
   label (JArr [JStr ''rock'', JStr ''paper'']) (- 1) = Inr (JStr ''class_-1'')"
  using label_fallback [of 3 "[JStr ''rock'', JStr ''paper'']" "[]" "JStr ''class_-1''" "''t''" "''paper''"]
    label_fallback [of 1 "[JStr ''rock'', JStr ''paper'']" "[]" "JStr ''class_-1''" "''t''" "''paper''"]
    label_fallback [of "- 1" "[JStr ''rock'', JStr ''paper'']" "[]" "JStr ''class_-1''" "''t''" "''paper''"]
  by (simp add: show_int_def digits.simps digit_char_def)

text \<open>
  C10. With the labels an array: when the entry at an index within the array is
  \<^verbatim>\<open>null\<close>, the label is \<^verbatim>\<open>class_\<close> followed by the index, not the entry.
  (\<^verbatim>\<open>JSON.parse\<close> yields no \<^verbatim>\<open>undefined\<close> entry.)
\<close>

theorem label_null_entry:
  "0 \<le> i \<and> nat i < length ls \<and> ls ! nat i = JNull \<longrightarrow>
     label (JArr ls) i = Inr (JStr (''class_'' @ show_int i))"
  by (simp add: label_array class_name_def)

theorem label_null_entry_witness:
  "label (JArr [JStr ''rock'', JNull, JStr ''scissors'']) 1 = Inr (JStr ''class_1'')"
  using label_null_entry [of 1 "[JStr ''rock'', JNull, JStr ''scissors'']"]
  by (simp add: show_int_def digits.simps digit_char_def)

lemma load_no_labels:
  "loadLayersModel env = Inr model \<Longrightarrow> readFile env = Inr raw \<Longrightarrow>
   JSON_parse env raw = Inr (JObj kvs) \<Longrightarrow> map_of kvs ''labels'' = None \<Longrightarrow>
   loadModelAndLabels env = Inr (model, JArr [])"
  by (simp add: loadModelAndLabels_def Promise_all_def bind_result_def)

text \<open>
  C8. When the metadata parses to an object with no \<^verbatim>\<open>labels\<close> property, the
  labels loaded are the empty array; after a successful startup they stay the labels
  of the timer's callback whatever events follow, every label is \<^verbatim>\<open>class_\<close>
  followed by the index, and every line printed names the class of the top index.
\<close>

theorem missing_labels_default:
  assumes "loadLayersModel env = Inr model" and "readFile env = Inr raw"
    and "JSON_parse env raw = Inr (JObj kvs)" and "map_of kvs ''labels'' = None"
    and "NodeWebcam_create env = Inr ()"
  shows "loadModelAndLabels env = Inr (model, JArr []) \<and>
     session (run lib (main env) evs) = Some (model, JArr []) \<and>
     label (JArr []) i = Inr (JStr (''class_'' @ show_int i)) \<and>
     report (JArr []) ts scores =
       Inr (''['' @ ts @ ''] class_'' @ show_int (topIdx scores) @ '' ('' @
            confidence scores (topIdx scores) @ ''%) | scores='' @ scores_text scores)"
proof -
  have l: "loadModelAndLabels env = Inr (model, JArr [])"
    using assms(1-4) by (rule load_no_labels)
  then have "session (main env) = Some (model, JArr [])"
    using assms(5) by (simp add: main_def bind_result_def)
  then have "session (run lib (main env) evs) = Some (model, JArr [])"
    by (simp add: session_run)
  then show ?thesis
    using l by (simp add: label_array class_name_def report_def Let_def bind_result_def log_line_def)
qed

theorem missing_labels_default_witness:
  "session (run example_lib (main (example_env (JObj [(''modelName'', JStr ''gesture'')]))) [Tick]) =
     Some ((), JArr []) \<and>
   label (JArr []) 2 = Inr (JStr ''class_2'')"
proof -
  have "loadLayersModel (example_env (JObj [(''modelName'', JStr ''gesture'')])) = Inr ()"
    and "readFile (example_env (JObj [(''modelName'', JStr ''gesture'')])) = Inr ''metadata.json''"
    and "JSON_parse (example_env (JObj [(''modelName'', JStr ''gesture'')])) ''metadata.json'' =
      Inr (JObj [(''modelName'', JStr ''gesture'')])"
    and "map_of [(''modelName'', JStr ''gesture'')] ''labels'' = None"
    and "NodeWebcam_create (example_env (JObj [(''modelName'', JStr ''gesture'')])) = Inr ()"
    by (simp_all add: example_env_def)
  from missing_labels_default [OF this, of example_lib "[Tick]" 2 "''t''" "[]"]
  show ?thesis by (simp add: show_int_def digits.simps digit_char_def)
qed

section \<open>The top index and the confidence\<close>

lemma js_not_less_trans:
  "a \<noteq> NaN \<Longrightarrow> b \<noteq> NaN \<Longrightarrow> c \<noteq> NaN \<Longrightarrow> \<not> js_less a b \<Longrightarrow> \<not> js_less b c \<Longrightarrow> \<not> js_less a c"
  by (cases a; cases b; cases c) auto

lemma js_less_irrefl: "\<not> js_less a a"
  by (cases a) auto

lemma js_less_asym: "js_less a b \<Longrightarrow> \<not> js_less b a"
  by (cases a; cases b) auto

lemma max_fold:
  "NaN \<notin> set xs \<Longrightarrow> h \<noteq> NaN \<Longrightarrow>
   foldl (\<lambda>highest v. if highest = NaN \<or> v = NaN then NaN
                        else if js_less highest v then v else highest) h xs = m \<Longrightarrow>
   m \<noteq> NaN \<and> (m = h \<or> m \<in> set xs) \<and> \<not> js_less m h \<and> (\<forall>x\<in>set xs. \<not> js_less m x)"
proof (induction xs arbitrary: h)
  case Nil
  then show ?case by (auto simp: js_less_irrefl)
next
  case (Cons x xs)
  let ?h = "if js_less h x then x else h"
  have x: "x \<noteq> NaN" and xs: "NaN \<notin> set xs" using Cons.prems(1) by auto
  have h': "?h \<noteq> NaN" using x Cons.prems(2) by simp
  have f: "foldl (\<lambda>highest v. if highest = NaN \<or> v = NaN then NaN
                        else if js_less highest v then v else highest) ?h xs = m"
    using Cons.prems(3) x Cons.prems(2) by simp
  from Cons.IH [OF xs h' f]
  have m: "m \<noteq> NaN" and mem: "m = ?h \<or> m \<in> set xs" and ge: "\<not> js_less m ?h"
    and all: "\<forall>y\<in>set xs. \<not> js_less m y" by auto
  have hx: "\<not> js_less ?h h \<and> \<not> js_less ?h x"
    by (auto simp: js_less_irrefl js_less_asym)
  have "\<not> js_less m h" using js_not_less_trans [OF m h' Cons.prems(2) ge] hx by blast
  moreover have "\<not> js_less m x" using js_not_less_trans [OF m h' x ge] hx by blast
  moreover have "m = h \<or> m \<in> set (x # xs)" using mem by (auto split: if_splits)
  ultimately show ?case using m all by auto
qed

lemma Math_max_greatest:
  assumes "NaN \<notin> set xs" and "xs \<noteq> []"
  shows "Math_max xs \<noteq> NaN \<and> Math_max xs \<in> set xs \<and> (\<forall>x\<in>set xs. \<not> js_less (Math_max xs) x)"
proof -
  from max_fold [OF assms(1), of NInf "Math_max xs"]
  have m: "Math_max xs \<noteq> NaN" and mem: "Math_max xs = NInf \<or> Math_max xs \<in> set xs"
    and all: "\<forall>x\<in>set xs. \<not> js_less (Math_max xs) x"
    by (auto simp: Math_max_def)
  have "Math_max xs \<in> set xs"
  proof (cases "Math_max xs \<in> set xs")
    case True
    then show ?thesis .
  next
    case False
    with mem have n: "Math_max xs = NInf" by simp
    obtain x where x: "x \<in> set xs" using assms(2) by (cases xs) auto
    with all n have "\<not> js_less NInf x" by auto
    moreover have "x \<noteq> NaN" using x assms(1) by auto
    ultimately have "x = NInf" by (cases x) auto
    with x n show ?thesis by simp
  qed
  with m all show ?thesis by simp
qed

lemma index_from_first:
  "v \<noteq> NaN \<Longrightarrow> v \<in> set xs \<Longrightarrow>
   \<exists>i<length xs. index_from k xs v = k + int i \<and> xs ! i = v \<and> (\<forall>j<i. xs ! j \<noteq> v)"
proof (induction xs arbitrary: k)
  case Nil
  then show ?case by simp
next
  case (Cons x xs)
  show ?case
  proof (cases "x = v")
    case True
    then have "index_from k (x # xs) v = k + int 0 \<and> (x # xs) ! 0 = v"
      using Cons.prems(1) by (simp add: strict_eq_def)
    then show ?thesis by blast
  next
    case False
    then have "v \<in> set xs" using Cons.prems(2) by auto
    from Cons.IH [OF Cons.prems(1) this, of "k + 1"]
    obtain i where i: "i < length xs" "index_from (k + 1) xs v = k + 1 + int i" "xs ! i = v"
      "\<forall>j<i. xs ! j \<noteq> v" by blast
    have "index_from k (x # xs) v = k + int (Suc i)"
      using False i(2) by (auto simp: strict_eq_def)
    moreover have "(x # xs) ! Suc i = v" using i(3) by simp
    moreover have "\<forall>j<Suc i. (x # xs) ! j \<noteq> v"
      using False i(4) by (auto simp: nth_Cons split: nat.splits)
    moreover have "Suc i < length (x # xs)" using i(1) by simp
    ultimately show ?thesis by blast
  qed
qed

lemma topIdx_first_max:
  assumes "scores \<noteq> []" and "NaN \<notin> set scores"
  shows "\<exists>i<length scores. topIdx scores = int i \<and> scores ! i = Math_max scores \<and>
           (\<forall>j<length scores. \<not> js_less (scores ! i) (scores ! j)) \<and>
           (\<forall>j<i. scores ! j \<noteq> scores ! i)"
proof -
  from Math_max_greatest [OF assms(2) assms(1)]
  have m: "Math_max scores \<noteq> NaN" and mem: "Math_max scores \<in> set scores"
    and all: "\<forall>x\<in>set scores. \<not> js_less (Math_max scores) x" by auto
  from index_from_first [OF m mem, of 0]
  obtain i where i: "i < length scores" "index_from 0 scores (Math_max scores) = int i"
    "scores ! i = Math_max scores" "\<forall>j<i. scores ! j \<noteq> Math_max scores" by auto
  have "\<forall>j<length scores. \<not> js_less (scores ! i) (scores ! j)"
    using all i(3) by simp
  then show ?thesis using i by (auto simp: topIdx_def indexOf_def)
qed

lemma confidence_at:
  "i < length scores \<Longrightarrow> confidence scores (int i) = toFixed 1 (js_mul (scores ! i) (Fin 100))"
  by (simp add: confidence_def score_at_def to_number_def)

lemma digits_nonempty: "digits n \<noteq> []"
  by (subst digits.simps) simp

lemma digits_zero: "digits 0 = ''0''"
  by (subst digits.simps) (simp add: digit_char_def)

lemma toFixed_one_digit:
  assumes "\<bar>p\<bar> < 10 ^ 21"
  shows "toFixed 1 (Fin p) =
     (if p < 0 then ''-'' else []) @ digits (\<lfloor>\<bar>p\<bar> * 10 + 1 / 2\<rfloor> div 10) @ ''.'' @
     [digit_char (nat (\<lfloor>\<bar>p\<bar> * 10 + 1 / 2\<rfloor> mod 10))]"
proof -
  define n where "n = \<lfloor>\<bar>p\<bar> * 10 + 1 / 2\<rfloor>"
  define z where "z = replicate (1 + 1 - length (digits n)) CHR ''0'' @ digits n"
  have n0: "0 \<le> n" unfolding n_def by simp
  have shape: "take (length z - 1) z = digits (n div 10) \<and>
      drop (length z - 1) z = [digit_char (nat (n mod 10))]"
  proof (cases "n < 10")
    case True
    then have d: "digits n = [digit_char (nat n)]" by (subst digits.simps) simp
    show ?thesis using True n0 by (simp add: z_def d digits_zero)
  next
    case False
    then have d: "digits n = digits (n div 10) @ [digit_char (nat (n mod 10))]"
      by (subst digits.simps) simp
    have "Suc 0 \<le> length (digits (n div 10))"
      using digits_nonempty [of "n div 10"] by (cases "digits (n div 10)") simp_all
    then show ?thesis by (simp add: z_def d)
  qed
  have tf: "toFixed 1 (Fin p) =
      (if p < 0 then ''-'' else []) @ take (length z - 1) z @ ''.'' @ drop (length z - 1) z"
    using assms by (simp add: toFixed_def Let_def n_def z_def)
  show ?thesis unfolding tf using shape by (simp add: n_def)
qed

text \<open>The two score vectors of the specification, as the \<^verbatim>\<open>Float32Array\<close> holds
  them, and a vector with a tie.\<close>

lemma rock_paper_scissors_label:
  "label (JArr [JStr ''rock'', JStr ''paper'', JStr ''scissors''])
     (topIdx (float32_array [1 / 10, 7 / 10, 2 / 10])) = Inr (JStr ''paper'')"
  by code_simp

lemma rock_paper_scissors_confidence:
  "confidence (float32_array [1 / 10, 7 / 10, 2 / 10])
     (topIdx (float32_array [1 / 10, 7 / 10, 2 / 10])) = ''70.0''"
  by code_simp

lemma no_labels_tie_label:
  "label (JArr []) (topIdx (float32_array [3 / 10, 3 / 10])) = Inr (JStr ''class_0'')"
  by code_simp

lemma no_labels_tie_confidence:
  "confidence (float32_array [3 / 10, 3 / 10]) (topIdx (float32_array [3 / 10, 3 / 10])) = ''30.0''"
  by code_simp

lemma tie_example:
  "topIdx [Fin 1, Fin 3, Fin 3] = 1 \<and> confidence [Fin 1, Fin 3, Fin 3] 1 = ''300.0'' \<and>
   toFixed 1 (Fin (- (1 / 4))) = ''-0.3''"
  by code_simp

text \<open>
  C2, as the code has it. For every score vector of length at least 1 that holds no
  \<^verbatim>\<open>NaN\<close>, the top index is the first index that attains the maximum: its score
  is \<^verbatim>\<open>Math.max\<close> of the vector, no score is greater, and no earlier score is
  equal. The confidence is \<^verbatim>\<open>toFixed(1)\<close> of the product of that score with 100;
  whenever a product \<open>p\<close> is finite and below \<open>10 ^ 21\<close> in magnitude, that text is the
  sign, the integer digits, a point and exactly one fractional digit of \<open>p\<close> rounded
  to tenths, halves away from zero. For the labels rock, paper, scissors and the
  scores 0.1, 0.7, 0.2 the label is paper and the confidence 70.0; for no labels and
  the scores 0.3, 0.3 the label is \<^verbatim>\<open>class_0\<close> and the confidence 30.0.
\<close>

theorem top_label_extraction:
  "(scores \<noteq> [] \<and> NaN \<notin> set scores \<longrightarrow>
      (\<exists>i<length scores. topIdx scores = int i \<and> scores ! i = Math_max scores \<and>
           (\<forall>j<length scores. \<not> js_less (scores ! i) (scores ! j)) \<and>
           (\<forall>j<i. scores ! j \<noteq> scores ! i) \<and>
           confidence scores (topIdx scores) = toFixed 1 (js_mul (scores ! i) (Fin 100)))) \<and>
   (\<bar>p\<bar> < 10 ^ 21 \<longrightarrow>
      toFixed 1 (Fin p) =
        (if p < 0 then ''-'' else []) @ digits (\<lfloor>\<bar>p\<bar> * 10 + 1 / 2\<rfloor> div 10) @ ''.'' @
        [digit_char (nat (\<lfloor>\<bar>p\<bar> * 10 + 1 / 2\<rfloor> mod 10))]) \<and>
   label (JArr [JStr ''rock'', JStr ''paper'', JStr ''scissors''])
     (topIdx (float32_array [1 / 10, 7 / 10, 2 / 10])) = Inr (JStr ''paper'') \<and>
   confidence (float32_array [1 / 10, 7 / 10, 2 / 10])
     (topIdx (float32_array [1 / 10, 7 / 10, 2 / 10])) = ''70.0'' \<and>
   label (JArr []) (topIdx (float32_array [3 / 10, 3 / 10])) = Inr (JStr ''class_0'') \<and>
   confidence (float32_array [3 / 10, 3 / 10]) (topIdx (float32_array [3 / 10, 3 / 10])) = ''30.0''"
proof -
  have general: "scores \<noteq> [] \<and> NaN \<notin> set scores \<longrightarrow>
      (\<exists>i<length scores. topIdx scores = int i \<and> scores ! i = Math_max scores \<and>
           (\<forall>j<length scores. \<not> js_less (scores ! i) (scores ! j)) \<and>
           (\<forall>j<i. scores ! j \<noteq> scores ! i) \<and>
           confidence scores (topIdx scores) = toFixed 1 (js_mul (scores ! i) (Fin 100)))"
  proof
    assume a: "scores \<noteq> [] \<and> NaN \<notin> set scores"
    then obtain i where i: "i < length scores" "topIdx scores = int i" "scores ! i = Math_max scores"
      "\<forall>j<length scores. \<not> js_less (scores ! i) (scores ! j)" "\<forall>j<i. scores ! j \<noteq> scores ! i"
      using topIdx_first_max [of scores] by blast
    have "confidence scores (topIdx scores) = toFixed 1 (js_mul (scores ! i) (Fin 100))"
      unfolding i(2) using i(1) by (rule confidence_at)
    with i show "\<exists>i<length scores. topIdx scores = int i \<and> scores ! i = Math_max scores \<and>
           (\<forall>j<length scores. \<not> js_less (scores ! i) (scores ! j)) \<and>
           (\<forall>j<i. scores ! j \<noteq> scores ! i) \<and>
           confidence scores (topIdx scores) = toFixed 1 (js_mul (scores ! i) (Fin 100))"
      by blast
  qed
  have shape: "\<bar>p\<bar> < 10 ^ 21 \<longrightarrow>
      toFixed 1 (Fin p) =
        (if p < 0 then ''-'' else []) @ digits (\<lfloor>\<bar>p\<bar> * 10 + 1 / 2\<rfloor> div 10) @ ''.'' @
        [digit_char (nat (\<lfloor>\<bar>p\<bar> * 10 + 1 / 2\<rfloor> mod 10))]"
    using toFixed_one_digit [of p] by blast
  from general shape rock_paper_scissors_label rock_paper_scissors_confidence
    no_labels_tie_label no_labels_tie_confidence
  show ?thesis by (intro conjI)
qed

theorem top_label_extraction_witness:
  "topIdx [Fin 1, Fin 3, Fin 3] = 1 \<and> [Fin 1, Fin 3, Fin 3] ! 1 = Math_max [Fin 1, Fin 3, Fin 3] \<and>
   confidence [Fin 1, Fin 3, Fin 3] 1 = ''300.0'' \<and>
   toFixed 1 (Fin (- (1 / 4))) = ''-0.3''"
proof -
  from top_label_extraction [of "[Fin 1, Fin 3, Fin 3]" "- (1 / 4)"]
  obtain i where "topIdx [Fin 1, Fin 3, Fin 3] = int i"
    "[Fin 1, Fin 3, Fin 3] ! i = Math_max [Fin 1, Fin 3, Fin 3]"
    by auto
  with tie_example show ?thesis by auto
qed

text \<open>A vector of length 1 whose score is \<^verbatim>\<open>NaN\<close> has top index \<open>-1\<close>, which is
  no index of it; and the confidence of the score \<^verbatim>\<open>Infinity\<close> has no fractional
  digit.\<close>

theorem top_label_extraction_counterexample:
  "1 \<le> length [NaN] \<and> Math_max [NaN] = NaN \<and> topIdx [NaN] = - 1 \<and>
   \<not> (\<exists>i<length [NaN]. topIdx [NaN] = int i) \<and>
   1 \<le> length [PInf] \<and> topIdx [PInf] = 0 \<and> confidence [PInf] (topIdx [PInf]) = ''Infinity''"
  by (simp add: topIdx_def indexOf_def Math_max_def strict_eq_def confidence_def score_at_def
      to_number_def toFixed_def)

lemma report_empty:
  "report (JArr ls) ts [] = Inr (''['' @ ts @ ''] class_-1 (NaN%) | scores='')"
  by (simp add: report_def topIdx_def indexOf_def Math_max_def label_array class_name_def
      show_int_minus_one confidence_def score_at_def to_number_def toFixed_def log_line_def
      scores_text_def typed_join_def typed_map_def bind_result_def)

text \<open>
  C9. For the empty score vector \<^verbatim>\<open>Math.max\<close> is \<^verbatim>\<open>-Infinity\<close>, the top index is
  \<open>-1\<close>, the label (with the labels an array) is \<^verbatim>\<open>class_-1\<close>, the score at the
  top index is \<^verbatim>\<open>undefined\<close> and the confidence is \<^verbatim>\<open>NaN\<close>. Nothing is thrown: a
  cycle whose inference returns the empty vector prints its line and logs no error.
\<close>

theorem empty_scores:
  "Math_max [] = NInf \<and> topIdx [] = - 1 \<and>
   label (JArr ls) (topIdx []) = Inr (JStr ''class_-1'') \<and>
   score_at [] (topIdx []) = None \<and>
   confidence [] (topIdx []) = ''NaN'' \<and>
   report (JArr ls) ts [] = Inr (''['' @ ts @ ''] class_-1 (NaN%) | scores='') \<and>
   (session s = Some (model, JArr ls) \<and> pending s \<noteq> 0 \<and>
    captureFrame err data = Inr frame \<and> predict lib model frame = Inr [] \<longrightarrow>
      stdout (step lib s (Callback err data ts)) =
        stdout s @ [''['' @ ts @ ''] class_-1 (NaN%) | scores=''] \<and>
      stderr (step lib s (Callback err data ts)) = stderr s \<and>
      \<not> running (step lib s (Callback err data ts)))"
  by (simp add: report_empty topIdx_def indexOf_def Math_max_def label_array class_name_def
      show_int_minus_one confidence_def score_at_def to_number_def toFixed_def
      resume_def cycle_def bind_result_def)

lemma example_predict: "predict example_lib () (Some scores) = Inr scores"
  by (simp add: predict_def example_lib_def bind_result_def)

theorem empty_scores_witness:
  "stdout (run example_lib (main (example_env (JObj []))) [Tick, Callback None (Some []) ''t'']) =
     [''Model loaded. Capturing from webcam every 5 seconds...'', ''[t] class_-1 (NaN%) | scores=''] \<and>
   stderr (run example_lib (main (example_env (JObj []))) [Tick, Callback None (Some []) ''t'']) = []"
  using empty_scores [where ls = "[]" and ts = "''t''"
      and s = "run example_lib (main (example_env (JObj []))) [Tick]" and model = "()"
      and err = None and data = "Some []" and frame = "Some []" and lib = example_lib]
  by (simp add: run_def example_main tick_def captureFrame_def example_predict)

section \<open>The scores of the printed line\<close>

lemma saturated_scores:
  "confidence [Fin 1, Fin 0] (topIdx [Fin 1, Fin 0]) = ''100.0'' \<and>
   label (JArr [JStr ''rock'', JStr ''paper'']) (topIdx [Fin 1, Fin 0]) = Inr (JStr ''rock'') \<and>
   map (toFixed 2) [Fin 1, Fin 0] = [''1.00'', ''0.00''] \<and>
   typed_map (toFixed 2) [Fin 1, Fin 0] = [Fin 1, Fin 0] \<and>
   scores_text [Fin 1, Fin 0] = ''1, 0''"
  by code_simp

lemma float32_tenth: "number_to_string (Fin (13421773 / 134217728)) = ''0.10000000149011612''"
  by code_simp

lemma float32_seven_tenths: "number_to_string (Fin (11744051 / 16777216)) = ''0.699999988079071''"
  by code_simp

lemma float32_fifth: "number_to_string (Fin (13421773 / 67108864)) = ''0.20000000298023224''"
  by code_simp

lemma rock_paper_scissors_stored:
  "map (toFixed 2) (float32_array [1 / 10, 7 / 10, 2 / 10]) = [''0.10'', ''0.70'', ''0.20''] \<and>
   typed_map (toFixed 2) (float32_array [1 / 10, 7 / 10, 2 / 10]) =
     [Fin (13421773 / 134217728), Fin (11744051 / 16777216), Fin (13421773 / 67108864)]"
  by code_simp

text \<open>
  C7 at two score vectors. The callback of \<^verbatim>\<open>map\<close> returns the texts with two
  decimals, but the typed array stores them as Numbers again and \<^verbatim>\<open>join\<close> prints
  those: the saturated vector 1, 0 is printed as \<^verbatim>\<open>1, 0\<close>, and the vector 0.1,
  0.7, 0.2 with all the digits of its 32-bit floats.
\<close>

theorem scores_not_two_decimals:
  "map (toFixed 2) [Fin 1, Fin 0] = [''1.00'', ''0.00''] \<and>
   scores_text [Fin 1, Fin 0] = ''1, 0'' \<and>
   report (JArr [JStr ''rock'', JStr ''paper'']) ts [Fin 1, Fin 0] =
     Inr (''['' @ ts @ ''] rock (100.0%) | scores=1, 0'') \<and>
   map (toFixed 2) (float32_array [1 / 10, 7 / 10, 2 / 10]) = [''0.10'', ''0.70'', ''0.20''] \<and>
   scores_text (float32_array [1 / 10, 7 / 10, 2 / 10]) =
     ''0.10000000149011612, 0.699999988079071, 0.20000000298023224''"
proof -
  have a: "report (JArr [JStr ''rock'', JStr ''paper'']) ts [Fin 1, Fin 0] =
     Inr (''['' @ ts @ ''] rock (100.0%) | scores=1, 0'')"
    using saturated_scores by (simp add: report_def Let_def bind_result_def log_line_def)
  have b: "scores_text (float32_array [1 / 10, 7 / 10, 2 / 10]) =
     ''0.10000000149011612, 0.699999988079071, 0.20000000298023224''"
    using rock_paper_scissors_stored
    by (simp add: scores_text_def typed_join_def float32_tenth float32_seven_tenths float32_fifth)
  from a b saturated_scores rock_paper_scissors_stored show ?thesis by simp
qed

end
